theory Spec2Isabelle
  imports Complex_Main
begin

section \<open>Notification hub: data model\<close>

text \<open>
  The embedding follows \<^verbatim>\<open>src/module.py\<close>. Python text is a list of characters,
  Python floats (timestamps, latencies, the success rate) are idealised as exact
  rationals, and the SQLite database is a record of two tables, each a list of rows
  in insertion order.
\<close>

datatype Channel = EMAIL | SLACK | WEBHOOK | PUSH

fun Channel_value :: "Channel \<Rightarrow> string" where
  "Channel_value EMAIL = ''email''"
| "Channel_value SLACK = ''slack''"
| "Channel_value WEBHOOK = ''webhook''"
| "Channel_value PUSH = ''push''"

datatype NotificationStatus = PENDING | SENT | FAILED | READ

fun NotificationStatus_value :: "NotificationStatus \<Rightarrow> string" where
  "NotificationStatus_value PENDING = ''pending''"
| "NotificationStatus_value SENT = ''sent''"
| "NotificationStatus_value FAILED = ''failed''"
| "NotificationStatus_value READ = ''read''"

datatype error = ValueError | KeyError | AttributeError | ZeroDivisionError

text \<open>\<^verbatim>\<open>Channel(value)\<close>: the enumeration's lookup by value, raising ValueError.\<close>

definition Channel_of :: "string \<Rightarrow> error + Channel" where
  "Channel_of s =
     (if s = ''email'' then Inr EMAIL
      else if s = ''slack'' then Inr SLACK
      else if s = ''webhook'' then Inr WEBHOOK
      else if s = ''push'' then Inr PUSH
      else Inl ValueError)"

text \<open>\<^verbatim>\<open>NotificationStatus(value)\<close>.\<close>

definition NotificationStatus_of :: "string \<Rightarrow> error + NotificationStatus" where
  "NotificationStatus_of s =
     (if s = ''pending'' then Inr PENDING
      else if s = ''sent'' then Inr SENT
      else if s = ''failed'' then Inr FAILED
      else if s = ''read'' then Inr READ
      else Inl ValueError)"

text \<open>
  The \<^verbatim>\<open>channel\<close> attribute of a notification object is annotated \<^verbatim>\<open>Channel\<close>, and
  \<^verbatim>\<open>send_notification\<close> handles both a member of the enumeration and a plain string
  (its \<^verbatim>\<open>isinstance\<close> tests), so the attribute is one or the other.
\<close>

datatype channel_attr = Member Channel | Plain string

text \<open>The metadata dictionary, a JSON-compatible value.\<close>

datatype json =
    JNull
  | JBool bool
  | JNum rat
  | JStr string
  | JArr "json list"
  | JObj "(string \<times> json) list"

record Notification =
  nid :: string
  ntype :: string
  recipient :: string
  subject :: string
  body :: string
  channel :: channel_attr
  status :: NotificationStatus
  sent_at :: "rat option"
  created_at :: rat
  metadata :: json
  retry_count :: int

text \<open>
  A row of table \<^verbatim>\<open>notifications\<close>. Columns \<^verbatim>\<open>channel\<close> and \<^verbatim>\<open>status\<close> are TEXT; the
  \<^verbatim>\<open>metadata\<close> column holds the JSON text of the dictionary, modelled by the value
  that text denotes (\<^verbatim>\<open>json.loads\<close> after \<^verbatim>\<open>json.dumps\<close>).
\<close>

record notification_row =
  r_id :: string
  r_type :: string
  r_recipient :: string
  r_subject :: string
  r_body :: string
  r_channel :: string
  r_status :: string
  r_sent_at :: "rat option"
  r_created_at :: rat
  r_metadata :: json
  r_retry_count :: int

text \<open>A row of table \<^verbatim>\<open>delivery_log\<close>; \<^verbatim>\<open>success\<close> is an INTEGER column (1 or 0).\<close>

record delivery_row =
  l_id :: nat
  notification_id :: string
  l_channel :: string
  attempt_at :: rat
  success :: int
  error_msg :: "string option"
  latency_ms :: "rat option"

text \<open>
  The database file, with the number of \<^verbatim>\<open>time.time()\<close> calls made so far: the
  clock is a function from that number to the reading, given by the environment.
\<close>

record db =
  notifications :: "notification_row list"
  delivery_log :: "delivery_row list"
  ticks :: nat

definition empty_db :: db where
  "empty_db = \<lparr>notifications = [], delivery_log = [], ticks = 0\<rparr>"

section \<open>Rounding\<close>

text \<open>Python's \<^verbatim>\<open>round(x, ndigits)\<close>: to the nearest multiple of \<open>10^-ndigits\<close>, ties to even.\<close>

definition round_half_even :: "rat \<Rightarrow> int" where
  "round_half_even x =
     (let f = \<lfloor>x\<rfloor>; d = x - of_int f
      in if d < 1 / 2 then f else if 1 / 2 < d then f + 1
         else if even f then f else f + 1)"

definition py_round :: "rat \<Rightarrow> nat \<Rightarrow> rat" where
  "py_round x ndigits = of_int (round_half_even (x * 10 ^ ndigits)) / 10 ^ ndigits"

section \<open>Core API\<close>

text \<open>\<^verbatim>\<open>INSERT OR REPLACE\<close> on the primary key \<^verbatim>\<open>id\<close>: the conflicting row is deleted,
  the new row is inserted at the end.\<close>

definition insert_or_replace :: "notification_row \<Rightarrow> notification_row list \<Rightarrow> notification_row list" where
  "insert_or_replace row rows = filter (\<lambda>r. r_id r \<noteq> r_id row) rows @ [row]"

text \<open>\<^verbatim>\<open>SELECT * FROM notifications WHERE id = ?\<close> with \<^verbatim>\<open>fetchone()\<close>.\<close>

definition select_by_id :: "string \<Rightarrow> notification_row list \<Rightarrow> notification_row option" where
  "select_by_id i rows = (case filter (\<lambda>r. r_id r = i) rows of [] \<Rightarrow> None | r # _ \<Rightarrow> Some r)"

text \<open>The value written to column \<^verbatim>\<open>channel\<close>:
  \<^verbatim>\<open>notification.channel.value if isinstance(notification.channel, Channel) else notification.channel\<close>.\<close>

fun channel_column :: "channel_attr \<Rightarrow> string" where
  "channel_column (Member c) = Channel_value c"
| "channel_column (Plain s) = s"

text \<open>The \<^verbatim>\<open>try\<close> block of \<^verbatim>\<open>send_notification\<close>: the pair \<^verbatim>\<open>(success, error_msg)\<close> after it.
  \<^verbatim>\<open>Channel(m)\<close> on a member returns the member.\<close>

fun validate_channel :: "channel_attr \<Rightarrow> bool \<times> string option" where
  "validate_channel (Member c) = (True, None)"
| "validate_channel (Plain s) =
     (case Channel_of s of
        Inr _ \<Rightarrow> (True, None)
      | Inl _ \<Rightarrow> (False, Some (''Unknown channel: '' @ s)))"

text \<open>\<^verbatim>\<open>_row_to_notification\<close>: the two enumeration lookups raise ValueError.\<close>

definition row_to_notification :: "notification_row \<Rightarrow> error + Notification" where
  "row_to_notification row =
     (case Channel_of (r_channel row) of
        Inl e \<Rightarrow> Inl e
      | Inr c \<Rightarrow>
          (case NotificationStatus_of (r_status row) of
             Inl e \<Rightarrow> Inl e
           | Inr s \<Rightarrow>
               Inr \<lparr>nid = r_id row, ntype = r_type row, recipient = r_recipient row,
                    subject = r_subject row, body = r_body row, channel = Member c,
                    status = s, sent_at = r_sent_at row, created_at = r_created_at row,
                    metadata = r_metadata row, retry_count = r_retry_count row\<rparr>))"

text \<open>
  \<^verbatim>\<open>send_notification\<close>. \<^verbatim>\<open>init_db\<close> creates the tables when they are missing and is
  the identity on the model. The call reads the clock three times (\<^verbatim>\<open>start\<close>, \<^verbatim>\<open>now\<close>,
  and the end of the latency interval). It returns the boolean, the notification
  object as mutated, and the database.
\<close>

definition send_notification ::
  "(nat \<Rightarrow> rat) \<Rightarrow> Notification \<Rightarrow> db \<Rightarrow> bool \<times> Notification \<times> db" where
  "send_notification clk notification d =
     (let start = clk (ticks d);
          (ok, err) = validate_channel (channel notification);
          now = clk (ticks d + 1);
          latency = (clk (ticks d + 2) - start) * 1000;
          new_status = (if ok then SENT else FAILED);
          sent = (if ok then Some now else None);
          row = \<lparr>r_id = nid notification, r_type = ntype notification,
                 r_recipient = recipient notification, r_subject = subject notification,
                 r_body = body notification, r_channel = channel_column (channel notification),
                 r_status = NotificationStatus_value new_status, r_sent_at = sent,
                 r_created_at = created_at notification, r_metadata = metadata notification,
                 r_retry_count = retry_count notification\<rparr>;
          entry = \<lparr>l_id = Suc (length (delivery_log d)), notification_id = nid notification,
                   l_channel = channel_column (channel notification), attempt_at = now,
                   success = (if ok then 1 else 0), error_msg = err,
                   latency_ms = Some (py_round latency 3)\<rparr>
      in (ok,
          notification\<lparr>status := new_status, sent_at := sent\<rparr>,
          d\<lparr>notifications := insert_or_replace row (notifications d),
            delivery_log := delivery_log d @ [entry],
            ticks := ticks d + 3\<rparr>))"

text \<open>\<^verbatim>\<open>mark_read\<close>: the UPDATE statement and its \<^verbatim>\<open>rowcount\<close> (the rows the WHERE clause
  selects, whether or not their status changes).\<close>

definition mark_read :: "string \<Rightarrow> db \<Rightarrow> bool \<times> db" where
  "mark_read notification_id' d =
     (let hit = (\<lambda>r. r_id r = notification_id' \<and> r_status r \<noteq> NotificationStatus_value PENDING);
          rowcount = length (filter hit (notifications d))
      in (0 < rowcount,
          d\<lparr>notifications :=
               map (\<lambda>r. if hit r then r\<lparr>r_status := NotificationStatus_value READ\<rparr> else r)
                 (notifications d)\<rparr>))"

text \<open>\<^verbatim>\<open>get_notification\<close>.\<close>

definition get_notification :: "string \<Rightarrow> db \<Rightarrow> error + Notification option" where
  "get_notification notification_id' d =
     (case select_by_id notification_id' (notifications d) of
        None \<Rightarrow> Inr None
      | Some row \<Rightarrow>
          (case row_to_notification row of Inl e \<Rightarrow> Inl e | Inr n \<Rightarrow> Inr (Some n)))"



text \<open>\<^verbatim>\<open>retry_failed\<close>. The list comprehension over \<^verbatim>\<open>_row_to_notification\<close> stops at the
  first row that raises; the loop then sends each decoded notification with its
  \<^verbatim>\<open>retry_count\<close> incremented.\<close>

fun rows_to_notifications :: "notification_row list \<Rightarrow> error + Notification list" where
  "rows_to_notifications [] = Inr []"
| "rows_to_notifications (r # rs) =
     (case row_to_notification r of
        Inl e \<Rightarrow> Inl e
      | Inr n \<Rightarrow>
          (case rows_to_notifications rs of Inl e \<Rightarrow> Inl e | Inr ns \<Rightarrow> Inr (n # ns)))"

fun retry_loop :: "(nat \<Rightarrow> rat) \<Rightarrow> Notification list \<Rightarrow> int \<Rightarrow> db \<Rightarrow> int \<times> db" where
  "retry_loop clk [] count d = (count, d)"
| "retry_loop clk (notif # rest) count d =
     (case send_notification clk (notif\<lparr>retry_count := retry_count notif + 1\<rparr>) d of
        (ok, _, d') \<Rightarrow> retry_loop clk rest (if ok then count + 1 else count) d')"

definition retry_failed :: "(nat \<Rightarrow> rat) \<Rightarrow> db \<Rightarrow> error + (int \<times> db)" where
  "retry_failed clk d =
     (let rows = filter (\<lambda>r. r_status r = NotificationStatus_value FAILED) (notifications d)
      in case rows_to_notifications rows of
           Inl e \<Rightarrow> Inl e
         | Inr ns \<Rightarrow> Inr (retry_loop clk ns 0 d))"

section \<open>Statistics\<close>






section \<open>Template rendering\<close>




text \<open>\<^verbatim>\<open>key.split(".")\<close>.\<close>

fun split_dot :: "string \<Rightarrow> string list" where
  "split_dot [] = [[]]"
| "split_dot (c # cs) =
     (if c = CHR ''.'' then [] # split_dot cs
      else (case split_dot cs of [] \<Rightarrow> [[c]] | p # ps \<Rightarrow> (c # p) # ps))"












section \<open>Auxiliary notions and sample inputs\<close>

text \<open>A channel attribute denotes one of the four values of the enumeration.\<close>

definition valid_channel :: "channel_attr \<Rightarrow> bool" where
  "valid_channel a = (channel_column a \<in> {''email'', ''slack'', ''webhook'', ''push''})"

text \<open>A clock that advances by one second at each reading, and a notification as
  the test suite builds them.\<close>

definition sample_clock :: "nat \<Rightarrow> rat" where
  "sample_clock n = of_nat n"

definition sample_notification :: Notification where
  "sample_notification =
     \<lparr>nid = ''n1'', ntype = ''alert'', recipient = ''x@e.com'', subject = ''S'', body = ''B'',
      channel = Member EMAIL, status = PENDING, sent_at = None, created_at = 0,
      metadata = JObj [], retry_count = 0\<rparr>"

text \<open>The database after \<^verbatim>\<open>send_notification(sample_notification)\<close> on a fresh file.\<close>

definition sample_db :: db where
  "sample_db = snd (snd (send_notification sample_clock sample_notification empty_db))"

text \<open>The sample notification with a channel outside the enumeration.\<close>

definition unknown_channel_notification :: Notification where
  "unknown_channel_notification = sample_notification\<lparr>channel := Plain ''sms''\<rparr>"






section \<open>Facts about \<^verbatim>\<open>send_notification\<close>\<close>

lemma validate_channel_valid: "valid_channel a \<Longrightarrow> validate_channel a = (True, None)"
  by (cases a) (auto simp: valid_channel_def Channel_of_def)

lemma validate_channel_invalid:
  "\<not> valid_channel a \<Longrightarrow>
   validate_channel a = (False, Some (''Unknown channel: '' @ channel_column a))"
proof (cases a)
  case (Member c)
  assume "\<not> valid_channel a"
  with Member show ?thesis by (cases c) (simp_all add: valid_channel_def)
next
  case (Plain s)
  assume "\<not> valid_channel a"
  with Plain show ?thesis by (simp add: valid_channel_def Channel_of_def)
qed



lemma send_notification_db:
  "snd (snd (send_notification clk n d)) =
     d\<lparr>notifications :=
         insert_or_replace
           \<lparr>r_id = nid n, r_type = ntype n, r_recipient = recipient n, r_subject = subject n,
            r_body = body n, r_channel = channel_column (channel n),
            r_status = (if valid_channel (channel n) then ''sent'' else ''failed''),
            r_sent_at = (if valid_channel (channel n) then Some (clk (ticks d + 1)) else None),
            r_created_at = created_at n, r_metadata = metadata n,
            r_retry_count = retry_count n\<rparr>
           (notifications d),
       delivery_log :=
         delivery_log d @
           [\<lparr>l_id = Suc (length (delivery_log d)), notification_id = nid n,
             l_channel = channel_column (channel n), attempt_at = clk (ticks d + 1),
             success = (if valid_channel (channel n) then 1 else 0),
             error_msg = (if valid_channel (channel n) then None
                          else Some (''Unknown channel: '' @ channel_column (channel n))),
             latency_ms = Some (py_round ((clk (ticks d + 2) - clk (ticks d)) * 1000) 3)\<rparr>],
       ticks := ticks d + 3\<rparr>"
  by (cases "valid_channel (channel n)")
     (simp_all add: send_notification_def Let_def validate_channel_valid validate_channel_invalid)

lemma filter_insert_or_replace_same:
  "filter (\<lambda>r. r_id r = r_id row) (insert_or_replace row rows) = [row]"
  by (simp add: insert_or_replace_def)

lemma filter_insert_or_replace_other:
  "i \<noteq> r_id row \<Longrightarrow>
   filter (\<lambda>r. r_id r = i) (insert_or_replace row rows) = filter (\<lambda>r. r_id r = i) rows"
  by (auto simp: insert_or_replace_def intro: filter_cong)

lemma valid_sample: "valid_channel (channel sample_notification)"
  by (simp add: valid_channel_def sample_notification_def)

lemma sample_db_eq:
  "sample_db =
     \<lparr>notifications =
        [\<lparr>r_id = ''n1'', r_type = ''alert'', r_recipient = ''x@e.com'', r_subject = ''S'',
          r_body = ''B'', r_channel = ''email'', r_status = ''sent'', r_sent_at = Some 1,
          r_created_at = 0, r_metadata = JObj [], r_retry_count = 0\<rparr>],
      delivery_log =
        [\<lparr>l_id = 1, notification_id = ''n1'', l_channel = ''email'', attempt_at = 1,
          success = 1, error_msg = None, latency_ms = Some 2000\<rparr>],
      ticks = 3\<rparr>"
  by (simp add: sample_db_def send_notification_db valid_sample)
     (simp add: sample_notification_def empty_db_def
      sample_clock_def insert_or_replace_def py_round_def round_half_even_def)

section \<open>Marking as read\<close>

lemma rowcount_after_update:
  fixes i :: string
  defines "hit \<equiv> \<lambda>r. r_id r = i \<and> r_status r \<noteq> NotificationStatus_value PENDING"
  shows "length (filter hit
           (map (\<lambda>r. if hit r then r\<lparr>r_status := NotificationStatus_value READ\<rparr> else r) rows))
         = length (filter hit rows)"
  by (induction rows) (auto simp: hit_def)

lemma mark_read_second_call_same_result:
  "fst (mark_read i (snd (mark_read i d))) = fst (mark_read i d)"
proof -
  let ?hit = "\<lambda>r. r_id r = i \<and> r_status r \<noteq> NotificationStatus_value PENDING"
  let ?upd = "\<lambda>r. if ?hit r then r\<lparr>r_status := NotificationStatus_value READ\<rparr> else r"
  have "fst (mark_read i (snd (mark_read i d)))
        = (0 < length (filter ?hit (map ?upd (notifications d))))"
    by (simp add: mark_read_def Let_def)
  also have "\<dots> = (0 < length (filter ?hit (notifications d)))"
    by (simp only: rowcount_after_update)
  also have "\<dots> = fst (mark_read i d)"
    by (simp add: mark_read_def Let_def)
  finally show ?thesis .
qed

text \<open>
  C1 (the code departs from the claim). \<^verbatim>\<open>mark_read\<close> on a stored notification with
  status SENT returns true and stores READ, as claimed. A second \<^verbatim>\<open>mark_read\<close> on
  the same id leaves the status READ but returns true again, not false: the UPDATE
  statement excludes the status \<^verbatim>\<open>pending\<close>, not \<^verbatim>\<open>read\<close>, and counts the row it
  rewrites. Evaluated on the sample notification after one send.
\<close>

theorem mark_read_second_call_returns_true:
  "fst (mark_read ''n1'' sample_db)
   \<and> map r_status (notifications (snd (mark_read ''n1'' sample_db))) = [''read'']
   \<and> fst (mark_read ''n1'' (snd (mark_read ''n1'' sample_db)))
   \<and> map r_status (notifications (snd (mark_read ''n1'' (snd (mark_read ''n1'' sample_db)))))
       = [''read'']"
  by (simp add: sample_db_eq mark_read_def)

section \<open>Decoding rows and retrying\<close>

lemma Channel_of_invalid: "\<not> valid_channel a \<Longrightarrow> Channel_of (channel_column a) = Inl ValueError"
  by (simp add: valid_channel_def Channel_of_def)

lemma Channel_of_valid: "valid_channel a \<Longrightarrow> \<exists>c. Channel_of (channel_column a) = Inr c"
  by (auto simp: valid_channel_def Channel_of_def)

lemma row_to_notification_error: "row_to_notification r = Inl e \<Longrightarrow> e = ValueError"
  by (auto simp: row_to_notification_def Channel_of_def NotificationStatus_of_def
      split: sum.splits if_splits)

lemma rows_to_notifications_error:
  "r \<in> set rows \<Longrightarrow> row_to_notification r = Inl ValueError \<Longrightarrow>
   rows_to_notifications rows = Inl ValueError"
proof (induction rows)
  case Nil
  then show ?case by simp
next
  case (Cons x xs)
  show ?case
  proof (cases "row_to_notification x")
    case (Inl e)
    then show ?thesis using row_to_notification_error [OF Inl] by simp
  next
    case (Inr m)
    with Cons.prems have "r \<in> set xs" by auto
    with Cons.IH Cons.prems(2) have "rows_to_notifications xs = Inl ValueError" by simp
    with Inr show ?thesis by simp
  qed
qed

lemma invalid_unknown: "\<not> valid_channel (channel unknown_channel_notification)"
  by (simp add: valid_channel_def unknown_channel_notification_def)

text \<open>
  C2 (the code departs from the claim). A notification is stored with status FAILED
  by a send whose channel is outside the enumeration. On the database such a send
  leaves, \<^verbatim>\<open>retry_failed\<close> raises ValueError while it decodes the FAILED rows, before
  any retry count is incremented and before any send: it does not return a count.
\<close>

theorem retry_failed_raises_after_failed_send:
  assumes "\<not> valid_channel (channel n)"
  shows "retry_failed clk' (snd (snd (send_notification clk n d))) = Inl ValueError"
proof -
  let ?row = "\<lparr>r_id = nid n, r_type = ntype n, r_recipient = recipient n, r_subject = subject n,
            r_body = body n, r_channel = channel_column (channel n),
            r_status = ''failed'',
            r_sent_at = None,
            r_created_at = created_at n, r_metadata = metadata n,
            r_retry_count = retry_count n\<rparr>"
  let ?d = "snd (snd (send_notification clk n d))"
  have rows: "notifications ?d = insert_or_replace ?row (notifications d)"
    using assms by (simp add: send_notification_db)
  have mem: "?row \<in> set (filter (\<lambda>r. r_status r = NotificationStatus_value FAILED) (notifications ?d))"
    by (simp add: rows insert_or_replace_def)
  have "row_to_notification ?row = Inl ValueError"
    using Channel_of_invalid [OF assms] by (simp add: row_to_notification_def)
  with mem have "rows_to_notifications
      (filter (\<lambda>r. r_status r = NotificationStatus_value FAILED) (notifications ?d)) = Inl ValueError"
    by (rule rows_to_notifications_error)
  then show ?thesis by (simp add: retry_failed_def)
qed

theorem retry_failed_raises_witness:
  "\<not> valid_channel (channel unknown_channel_notification) \<and>
   retry_failed sample_clock
     (snd (snd (send_notification sample_clock unknown_channel_notification empty_db)))
   = Inl ValueError"
  using retry_failed_raises_after_failed_send [OF invalid_unknown, of sample_clock sample_clock empty_db]
    invalid_unknown
  by simp

section \<open>Sending\<close>






section \<open>Re-sending and fetching\<close>

lemma nid_sample: "nid sample_notification = ''n1''"
  by (simp add: sample_notification_def)

lemma nid_unknown: "nid unknown_channel_notification = ''n1''"
  by (simp add: unknown_channel_notification_def sample_notification_def)





text \<open>
  C10. The row that \<^verbatim>\<open>send_notification\<close> stores has status \<^verbatim>\<open>failed\<close> exactly when the
  channel is outside the enumeration, and for such a notification
  \<^verbatim>\<open>get_notification\<close> on its id raises ValueError while it decodes the row; for a
  valid channel it returns the notification.
\<close>

theorem get_notification_raises_on_unknown_channel:
  "(map r_status (filter (\<lambda>r. r_id r = nid n)
       (notifications (snd (snd (send_notification clk n d))))) = [''failed''])
     = (\<not> valid_channel (channel n))
   \<and> (\<not> valid_channel (channel n) \<longrightarrow>
        get_notification (nid n) (snd (snd (send_notification clk n d))) = Inl ValueError)
   \<and> (valid_channel (channel n) \<longrightarrow>
        (\<exists>m. get_notification (nid n) (snd (snd (send_notification clk n d))) = Inr (Some m)))"
proof -
  let ?row = "\<lparr>r_id = nid n, r_type = ntype n, r_recipient = recipient n, r_subject = subject n,
            r_body = body n, r_channel = channel_column (channel n),
            r_status = (if valid_channel (channel n) then ''sent'' else ''failed''),
            r_sent_at = (if valid_channel (channel n) then Some (clk (ticks d + 1)) else None),
            r_created_at = created_at n, r_metadata = metadata n,
            r_retry_count = retry_count n\<rparr>"
  have "filter (\<lambda>r. r_id r = r_id ?row) (insert_or_replace ?row (notifications d)) = [?row]"
    by (rule filter_insert_or_replace_same)
  then have f: "filter (\<lambda>r. r_id r = nid n)
      (notifications (snd (snd (send_notification clk n d)))) = [?row]"
    by (simp add: send_notification_db)
  have sel: "select_by_id (nid n) (notifications (snd (snd (send_notification clk n d)))) = Some ?row"
    unfolding select_by_id_def f by simp
  have a: "(map r_status (filter (\<lambda>r. r_id r = nid n)
       (notifications (snd (snd (send_notification clk n d))))) = [''failed''])
     = (\<not> valid_channel (channel n))"
    unfolding f by simp
  have b: "get_notification (nid n) (snd (snd (send_notification clk n d))) = Inl ValueError"
    if "\<not> valid_channel (channel n)"
    using Channel_of_invalid [OF that]
    by (simp add: get_notification_def sel row_to_notification_def)
  have c: "\<exists>m. get_notification (nid n) (snd (snd (send_notification clk n d))) = Inr (Some m)"
    if "valid_channel (channel n)"
    using Channel_of_valid [OF that] that
    by (auto simp: get_notification_def sel row_to_notification_def NotificationStatus_of_def)
  from a b c show ?thesis by blast
qed

theorem get_notification_raises_witness:
  "\<not> valid_channel (channel unknown_channel_notification)
   \<and> get_notification ''n1''
       (snd (snd (send_notification sample_clock unknown_channel_notification empty_db)))
     = Inl ValueError
   \<and> valid_channel (channel sample_notification)
   \<and> (\<exists>m. get_notification ''n1'' sample_db = Inr (Some m))"
  using get_notification_raises_on_unknown_channel [of unknown_channel_notification sample_clock empty_db]
    get_notification_raises_on_unknown_channel [of sample_notification sample_clock empty_db]
    invalid_unknown valid_sample
  by (simp add: sample_db_def nid_sample nid_unknown)

section \<open>The \<^verbatim>\<open>sent_at\<close> column\<close>

lemma mark_read_sent_at:
  "map r_sent_at (notifications (snd (mark_read j d))) = map r_sent_at (notifications d)"
  by (simp add: mark_read_def Let_def comp_def if_distrib [of r_sent_at] cong: if_cong)

lemma mark_read_ids:
  "map r_id (notifications (snd (mark_read j d))) = map r_id (notifications d)"
  by (simp add: mark_read_def Let_def comp_def if_distrib [of r_id] cong: if_cong)

text \<open>
  C3, as stated, fails: a second send of the same id replaces the stored \<^verbatim>\<open>sent_at\<close>.
  After the sample notification is sent at time 1, sending it again stores time 4,
  and sending the same id with an unknown channel stores null.
\<close>

theorem sent_at_overwritten_by_resend:
  "map r_sent_at (notifications sample_db) = [Some 1]
   \<and> map r_sent_at (notifications
        (snd (snd (send_notification sample_clock sample_notification sample_db)))) = [Some 4]
   \<and> map r_sent_at (notifications
        (snd (snd (send_notification sample_clock unknown_channel_notification sample_db)))) = [None]"
  by (simp add: send_notification_db valid_sample invalid_unknown nid_sample nid_unknown
      insert_or_replace_def sample_db_eq sample_clock_def)

text \<open>
  C3, amended. Each \<^verbatim>\<open>send_notification\<close> writes the \<^verbatim>\<open>sent_at\<close> of the row of its id:
  the time of the call when the delivery succeeds, null when it fails; the rows of
  the other ids keep theirs. \<^verbatim>\<open>mark_read\<close> changes no \<^verbatim>\<open>sent_at\<close> and no id.
\<close>

theorem sent_at_written_by_each_send:
  "map r_sent_at (filter (\<lambda>r. r_id r = i)
      (notifications (snd (snd (send_notification clk n d)))))
     = (if i = nid n
        then [if valid_channel (channel n) then Some (clk (ticks d + 1)) else None]
        else map r_sent_at (filter (\<lambda>r. r_id r = i) (notifications d)))
   \<and> map r_sent_at (notifications (snd (mark_read j d))) = map r_sent_at (notifications d)
   \<and> map r_id (notifications (snd (mark_read j d))) = map r_id (notifications d)"
proof -
  let ?row = "\<lparr>r_id = nid n, r_type = ntype n, r_recipient = recipient n, r_subject = subject n,
            r_body = body n, r_channel = channel_column (channel n),
            r_status = (if valid_channel (channel n) then ''sent'' else ''failed''),
            r_sent_at = (if valid_channel (channel n) then Some (clk (ticks d + 1)) else None),
            r_created_at = created_at n, r_metadata = metadata n,
            r_retry_count = retry_count n\<rparr>"
  have n: "notifications (snd (snd (send_notification clk n d)))
           = insert_or_replace ?row (notifications d)"
    by (simp add: send_notification_db)
  have "map r_sent_at (filter (\<lambda>r. r_id r = i) (insert_or_replace ?row (notifications d)))
     = (if i = nid n
        then [if valid_channel (channel n) then Some (clk (ticks d + 1)) else None]
        else map r_sent_at (filter (\<lambda>r. r_id r = i) (notifications d)))"
  proof (cases "i = nid n")
    case True
    have "filter (\<lambda>r. r_id r = r_id ?row) (insert_or_replace ?row (notifications d)) = [?row]"
      by (rule filter_insert_or_replace_same)
    with True show ?thesis by simp
  next
    case False
    then have "i \<noteq> r_id ?row" by simp
    from filter_insert_or_replace_other [OF this] False show ?thesis by simp
  qed
  then show ?thesis
    unfolding n using mark_read_sent_at mark_read_ids by simp
qed

theorem sent_at_written_by_each_send_witness:
  "map r_sent_at (filter (\<lambda>r. r_id r = ''n1'') (notifications sample_db)) = [Some 1]
   \<and> map r_sent_at (notifications (snd (mark_read ''n1'' sample_db))) = [Some 1]"
  using sent_at_written_by_each_send [of "''n1''" sample_clock sample_notification empty_db]
    sent_at_written_by_each_send [of "''n1''" sample_clock sample_notification sample_db "''n1''"]
  by (simp add: sample_db_def [symmetric] nid_sample valid_sample)
     (simp add: sample_db_eq empty_db_def sample_clock_def)

section \<open>Batch sending\<close>







section \<open>Statistics: the success rate\<close>





section \<open>Rendering\<close>

lemma split_dot_nonempty: "split_dot s \<noteq> []"
  by (induction s) (auto split: list.splits)















end
